theory Spec2Isabelle
  imports Complex_Main
begin

section \<open>Values shared by the components\<close>

text \<open>
  Python exceptions are values. A function of the source that can raise returns
  \<open>error + 'a\<close>, with \<open>Inl\<close> the exception. \<open>ValueError\<close> carries its message,
  because the source tells its own \<open>ValueError\<close> from the library's by the message.
\<close>

datatype error =
    ValueError string
  | KeyError
  | TypeError
  | IndexError
  | AttributeError
  | FileNotFoundError
  | UnpicklingError
  | JSONDecodeError

text \<open>
  A Python float, as far as the label mapper looks at it: a finite value (an exact real:
  rounding plays no part in a comparison), the two infinities, and NaN, which is what
  pandas puts where a lookup finds nothing.
\<close>

datatype pyfloat = Finite real | PosInf | NegInf | NaN

text \<open>\<open>a < c\<close> for a float \<open>a\<close> and a finite constant \<open>c\<close>; every comparison with NaN is false.\<close>

fun float_lt :: "pyfloat \<Rightarrow> real \<Rightarrow> bool" where
  "float_lt (Finite r) c = (r < c)"
| "float_lt NegInf c = True"
| "float_lt PosInf c = False"
| "float_lt NaN c = False"

section \<open>Label mapper (\<open>wisdm_processor.py\<close>)\<close>

text \<open>One line of the WISDM file: \<open>user, activity, timestamp, x, y, z\<close>.\<close>

record sample =
  user :: int
  activity :: string
  timestamp :: int
  x_axis :: real
  y_axis :: real
  z_axis :: real

text \<open>The same line with the two columns the processor adds.\<close>

record labelled_sample = sample +
  met_value :: pyfloat
  met_class :: int

text \<open>\<open>self.activity_met_mapping\<close>, a dict, in the order it is written.\<close>

definition activity_met_mapping :: "(string \<times> real) list" where
  "activity_met_mapping =
     [(''Walking'', 3.0),
      (''Jogging'', 7.0),
      (''Running'', 8.0),
      (''Upstairs'', 4.0),
      (''Downstairs'', 3.5),
      (''Sitting'', 1.0),
      (''Standing'', 1.2),
      (''SlowWalk'', 2.5)]"

text \<open>
  \<open>Series.map(dict)\<close> on one entry: the value of the key, NaN for a key the dict
  does not have. It never raises.
\<close>

definition series_map :: "(string \<times> real) list \<Rightarrow> string \<Rightarrow> pyfloat" where
  "series_map m a = (case map_of m a of Some v \<Rightarrow> Finite v | None \<Rightarrow> NaN)"

text \<open>\<open>get_met_class\<close>: an if/elif chain of three comparisons and an else.\<close>

definition get_met_class :: "pyfloat \<Rightarrow> int" where
  "get_met_class v =
     (if float_lt v 1.5 then 0
      else if float_lt v 3.0 then 1
      else if float_lt v 6.0 then 2
      else 3)"

text \<open>
  The two assignments of \<open>load_and_process_data\<close> (and of \<open>create_synthetic_data\<close>),
  \<open>df['met_value'] = df['activity'].map(...)\<close> and
  \<open>df['met_class'] = df['met_value'].apply(self.get_met_class)\<close>, on one row and on
  the frame. Both \<open>dropna\<close> calls come before them, so no row is removed afterwards.
\<close>

definition add_met_columns :: "sample \<Rightarrow> labelled_sample" where
  "add_met_columns r =
     (let mv = series_map activity_met_mapping (activity r) in
      \<lparr>user = user r, activity = activity r, timestamp = timestamp r,
       x_axis = x_axis r, y_axis = y_axis r, z_axis = z_axis r,
       met_value = mv, met_class = get_met_class mv\<rparr>)"

definition add_met_labels :: "sample list \<Rightarrow> labelled_sample list" where
  "add_met_labels df = map add_met_columns df"

section \<open>Feature extractor (\<open>feature_extractor.py\<close>)\<close>

text \<open>
  The extractor computes on numpy arrays of floats. The model computes on lists of
  reals: the statistics are those numpy documents, in exact arithmetic, so rounding
  and overflow of doubles play no part. Where numpy raises, the model returns the
  error; where numpy answers NaN with a warning (the mean of an empty array), the
  model has no value to give, and \<open>extract_features\<close> below returns the error that
  \<open>np.min\<close> raises on the same empty window before any such number is used.
\<close>

text \<open>\<open>np.mean\<close>: the sum over the number of entries.\<close>

definition np_mean :: "real list \<Rightarrow> real" where
  "np_mean a = sum_list a / real (length a)"

text \<open>\<open>np.std\<close> with its default \<open>ddof=0\<close>: the root of the mean squared deviation.\<close>

definition np_std :: "real list \<Rightarrow> real" where
  "np_std a = sqrt (np_mean (map (\<lambda>v. \<bar>v - np_mean a\<bar> ^ 2) a))"

text \<open>\<open>np.min\<close> and \<open>np.max\<close>: a reduction with no identity, so an empty array raises.\<close>

definition np_min :: "real list \<Rightarrow> error + real" where
  "np_min a = (case a of
       [] \<Rightarrow> Inl (ValueError ''zero-size array to reduction operation minimum which has no identity'')
     | v # vs \<Rightarrow> Inr (fold min vs v))"

definition np_max :: "real list \<Rightarrow> error + real" where
  "np_max a = (case a of
       [] \<Rightarrow> Inl (ValueError ''zero-size array to reduction operation maximum which has no identity'')
     | v # vs \<Rightarrow> Inr (fold max vs v))"

text \<open>
  \<open>a + b\<close> on one-dimensional arrays: entry by entry when the lengths agree, an array
  of one entry is broadcast over the other, and any other pair of lengths raises.
\<close>

definition np_add :: "real list \<Rightarrow> real list \<Rightarrow> error + real list" where
  "np_add a b =
     (if length a = length b then Inr (map2 (+) a b)
      else if length a = 1 then Inr (map (\<lambda>v. hd a + v) b)
      else if length b = 1 then Inr (map (\<lambda>v. v + hd b) a)
      else Inl (ValueError ''operands could not be broadcast together''))"

text \<open>\<open>np.diff\<close>: each entry minus the one before it; one entry fewer than the array.\<close>

definition np_diff :: "real list \<Rightarrow> real list" where
  "np_diff a = map2 (\<lambda>u v. v - u) a (tl a)"

text \<open>
  \<open>np.percentile(a, q)\<close> with its default linear interpolation: in the sorted array,
  the position \<open>q / 100 * (n - 1)\<close>, between the entries below and above it.
\<close>

definition np_percentile :: "real list \<Rightarrow> real \<Rightarrow> real" where
  "np_percentile a q =
     (let s = sort a;
          pos = q / 100 * real (length a - 1);
          lo = nat \<lfloor>pos\<rfloor>;
          hi = min (lo + 1) (length a - 1)
      in s ! lo + (pos - real lo) * (s ! hi - s ! lo))"

text \<open>
  Lines 53 and 54 of \<open>extract_features\<close>:
  \<open>np.sum(np.diff(np.sign(x - mean_x)) != 0)\<close>. \<open>np.sign\<close> is \<open>sgn\<close>, with
  \<open>sgn 0 = 0\<close>.
\<close>

definition zero_crossings :: "real list \<Rightarrow> nat" where
  "zero_crossings x =
     (let mean_x = np_mean x
      in length (filter (\<lambda>d. d \<noteq> 0) (np_diff (map (\<lambda>v. sgn (v - mean_x)) x))))"

text \<open>
  \<open>extract_features\<close>, on the three lists of \<open>accel_data\<close>. The magnitude is
  \<open>np.sqrt(x**2 + y**2 + z**2)\<close>, two broadcasting additions that can raise. The
  features are appended in the order of the source; \<open>np.min\<close> is the first call that
  raises on an empty magnitude.
\<close>

definition extract_features :: "real list \<Rightarrow> real list \<Rightarrow> real list \<Rightarrow> error + real list" where
  "extract_features x y z =
     (case np_add (map (\<lambda>v. v ^ 2) x) (map (\<lambda>v. v ^ 2) y) of
        Inl e \<Rightarrow> Inl e
      | Inr xy \<Rightarrow>
     (case np_add xy (map (\<lambda>v. v ^ 2) z) of
        Inl e \<Rightarrow> Inl e
      | Inr s \<Rightarrow>
     (let magnitude = map sqrt s in
      case np_min magnitude of
        Inl e \<Rightarrow> Inl e
      | Inr min_magnitude \<Rightarrow>
     (case np_max magnitude of
        Inl e \<Rightarrow> Inl e
      | Inr max_magnitude \<Rightarrow>
        Inr ([np_mean x, np_mean y, np_mean z, np_mean magnitude] @
             [np_std x, np_std y, np_std z, np_std magnitude] @
             [min_magnitude, max_magnitude] @
             [sqrt (np_mean (map (\<lambda>v. v ^ 2) x)),
              sqrt (np_mean (map (\<lambda>v. v ^ 2) y)),
              sqrt (np_mean (map (\<lambda>v. v ^ 2) z))] @
             [real (zero_crossings x)] @
             [np_percentile magnitude 25, np_percentile magnitude 75])))))"

text \<open>\<open>get_feature_names\<close>.\<close>

definition get_feature_names :: "string list" where
  "get_feature_names =
     [''mean_x'', ''mean_y'', ''mean_z'', ''mean_magnitude'',
      ''std_x'', ''std_y'', ''std_z'', ''std_magnitude'',
      ''min_magnitude'', ''max_magnitude'',
      ''rms_x'', ''rms_y'', ''rms_z'',
      ''zero_crossings_x'',
      ''magnitude_p25'', ''magnitude_p75'']"


section \<open>Window segmenter (\<open>train_model.py\<close>)\<close>






text \<open>\<open>Series.unique()\<close>: the distinct values in the order of their first appearance.\<close>

definition unique :: "'a list \<Rightarrow> 'a list" where
  "unique xs = rev (remdups (rev xs))"


text \<open>
  The two outer loops of \<open>create_features_from_dataframe\<close>: for each user, in order
  of appearance, \<open>user_data\<close>; for each activity of that user, \<open>activity_data\<close>.
\<close>

definition groups_of :: "labelled_sample list \<Rightarrow> labelled_sample list list" where
  "groups_of df =
     concat (map (\<lambda>u.
        let user_data = filter (\<lambda>r. user r = u) df
        in map (\<lambda>a. filter (\<lambda>r. activity r = a) user_data) (unique (map activity user_data)))
      (unique (map user df)))"









section \<open>Classifier wrapper (\<open>met_predictor.py\<close>)\<close>

text \<open>
  The classifier and the scaler are objects of scikit-learn, which is not part of the
  sources. The wrapper only calls them, so they are parameters, each given by what its
  methods answer on one row: \<open>scaler.transform\<close>, \<open>model.predict\<close> and
  \<open>model.predict_proba\<close>. Nothing is assumed of these answers; a fitted object is
  taken to answer without raising.
\<close>

datatype scaler = StandardScaler (transform: "real list \<Rightarrow> real list")

datatype classifier =
  RandomForestClassifier
    (clf_predict: "real list \<Rightarrow> int")
    (clf_predict_proba: "real list \<Rightarrow> real list")

text \<open>
  What an attribute of the wrapper, or a pickle, can hold: Python does not type them,
  so \<open>self.model\<close> may be \<open>None\<close> or an object of the wrong kind.
\<close>

datatype pyobj = PyNone | Scaler scaler | Classifier classifier

text \<open>The attributes of \<open>METPredictor\<close>; \<open>met_classes\<close> is a dict, in insertion order.\<close>

record predictor =
  model :: pyobj
  scaler :: pyobj
  feature_names :: "string list option"
  met_classes :: "(int \<times> string) list"

text \<open>\<open>__init__\<close>.\<close>

definition init_predictor :: predictor where
  "init_predictor =
     \<lparr>model = PyNone, scaler = PyNone, feature_names = None,
      met_classes = [(0, ''Sedentary''), (1, ''Light''), (2, ''Moderate''), (3, ''Vigorous'')]\<rparr>"

text \<open>The dict that \<open>predict\<close> returns.\<close>

record prediction =
  predicted_class :: int
  class_name :: string
  probabilities :: "real list"
  confidence :: real

text \<open>
  \<open>predict\<close>. First the guard on \<open>None\<close>; then the scaler's \<open>transform\<close> and the
  classifier's two methods, where an object without the method raises
  \<open>AttributeError\<close>; then the dict of the result, entry by entry:
  \<open>self.met_classes[prediction]\<close> raises \<open>KeyError\<close> on a class without a name, and
  \<open>np.max(probabilities)\<close> raises on an empty row.
\<close>

definition predict :: "predictor \<Rightarrow> real list \<Rightarrow> error + prediction" where
  "predict self features =
     (if model self = PyNone \<or> scaler self = PyNone
      then Inl (ValueError ''Model not trained or loaded'')
      else
       (case scaler self of
          Scaler sc \<Rightarrow>
            (let features_scaled = transform sc features in
             case model self of
               Classifier clf \<Rightarrow>
                 (let prediction = clf_predict clf features_scaled;
                      probs = clf_predict_proba clf features_scaled
                  in case map_of (met_classes self) prediction of
                       None \<Rightarrow> Inl KeyError
                     | Some name \<Rightarrow>
                         (case np_max probs of
                            Inl e \<Rightarrow> Inl e
                          | Inr m \<Rightarrow>
                              Inr \<lparr>predicted_class = prediction, class_name = name,
                                   probabilities = probs, confidence = m\<rparr>))
             | _ \<Rightarrow> Inl AttributeError)
        | _ \<Rightarrow> Inl AttributeError))"




text \<open>
  The files of a model directory. A path maps to what the file holds: a pickled
  object, which \<open>joblib.load\<close> gives back as \<open>joblib.dump\<close> received it, or the
  metadata that \<open>save_model\<close> dumps as JSON. Directories are not modelled:
  \<open>os.makedirs\<close> is taken to succeed.
\<close>

record metadata =
  md_feature_names :: "string list"
  md_met_classes :: "(string \<times> string) list"
  md_model_type :: string
  md_n_features :: nat

datatype stored_file = Pickle pyobj | Json metadata

type_synonym filesystem = "string \<Rightarrow> stored_file option"

text \<open>\<open>os.path.join\<close> of a directory and a relative file name.\<close>

definition path_join :: "string \<Rightarrow> string \<Rightarrow> string" where
  "path_join a b = (if a = [] \<or> last a = CHR ''/'' then a @ b else a @ CHR ''/'' # b)"

text \<open>
  \<open>joblib.load\<close> and \<open>json.load\<close> of a path: a missing file and a file of the
  other format raise.
\<close>

definition joblib_load :: "filesystem \<Rightarrow> string \<Rightarrow> error + pyobj" where
  "joblib_load fs path =
     (case fs path of
        None \<Rightarrow> Inl FileNotFoundError
      | Some (Pickle obj) \<Rightarrow> Inr obj
      | Some (Json _) \<Rightarrow> Inl UnpicklingError)"

definition json_load :: "filesystem \<Rightarrow> string \<Rightarrow> error + metadata" where
  "json_load fs path =
     (case fs path of
        None \<Rightarrow> Inl FileNotFoundError
      | Some (Json md) \<Rightarrow> Inr md
      | Some (Pickle _) \<Rightarrow> Inl JSONDecodeError)"

text \<open>
  \<open>json.dump\<close> writes an int key of a dict as the string \<open>str(k)\<close>: an optional
  minus sign and the decimal digits.
\<close>

definition digit_char :: "nat \<Rightarrow> char" where
  "digit_char d = ''0123456789'' ! d"

fun str_nat :: "nat \<Rightarrow> string" where
  "str_nat n = (if n < 10 then [digit_char n] else str_nat (n div 10) @ [digit_char (n mod 10)])"

definition py_str :: "int \<Rightarrow> string" where
  "py_str i = (if i < 0 then CHR ''-'' # str_nat (nat (- i)) else str_nat (nat i))"

text \<open>
  \<open>int(s)\<close> on a key read back: an optional sign and decimal digits. Python accepts
  a few more spellings (surrounding blanks, underscores between digits); the model
  reports them as the \<open>ValueError\<close> of an invalid literal. \<open>json.dump\<close> never writes
  them.
\<close>

definition digit_value :: "char \<Rightarrow> nat option" where
  "digit_value c = (if c \<in> set ''0123456789'' then Some (of_char c - 48) else None)"

fun parse_digits :: "string \<Rightarrow> nat \<Rightarrow> nat option" where
  "parse_digits [] acc = Some acc"
| "parse_digits (c # cs) acc =
     (case digit_value c of None \<Rightarrow> None | Some d \<Rightarrow> parse_digits cs (10 * acc + d))"

definition parse_nat :: "string \<Rightarrow> error + nat" where
  "parse_nat s =
     (if s = [] then Inl (ValueError ''invalid literal for int() with base 10'')
      else case parse_digits s 0 of
             None \<Rightarrow> Inl (ValueError ''invalid literal for int() with base 10'')
           | Some n \<Rightarrow> Inr n)"

definition py_int :: "string \<Rightarrow> error + int" where
  "py_int s =
     (if s \<noteq> [] \<and> hd s = CHR ''-'' then map_sum id (\<lambda>n. - int n) (parse_nat (tl s))
      else if s \<noteq> [] \<and> hd s = CHR ''+'' then map_sum id int (parse_nat (tl s))
      else map_sum id int (parse_nat s))"

text \<open>
  \<open>d[k] = v\<close> on a dict in insertion order, and the comprehension
  \<open>{int(k): v for k, v in metadata['met_classes'].items()}\<close>, which stops at the
  first key that is not an integer.
\<close>

fun dict_set :: "'k \<Rightarrow> 'v \<Rightarrow> ('k \<times> 'v) list \<Rightarrow> ('k \<times> 'v) list" where
  "dict_set k v [] = [(k, v)]"
| "dict_set k v ((k', v') # d) = (if k = k' then (k, v) # d else (k', v') # dict_set k v d)"

fun dict_from_items ::
    "(string \<times> string) list \<Rightarrow> (int \<times> string) list \<Rightarrow> error + (int \<times> string) list" where
  "dict_from_items [] d = Inr d"
| "dict_from_items ((k, v) # kvs) d =
     (case py_int k of Inl e \<Rightarrow> Inl e | Inr i \<Rightarrow> dict_from_items kvs (dict_set i v d))"

text \<open>
  \<open>save_model\<close>, with the files after the call and the exception, if any. The two
  pickles are written first; \<open>len(self.feature_names)\<close> then raises \<open>TypeError\<close> on
  a wrapper that was never trained, before the metadata file is opened.
\<close>

definition save_model :: "predictor \<Rightarrow> string \<Rightarrow> filesystem \<Rightarrow> filesystem \<times> error option" where
  "save_model self model_dir fs =
     (let fs1 = fs(path_join model_dir ''met_model.pkl'' \<mapsto> Pickle (model self));
          fs2 = fs1(path_join model_dir ''scaler.pkl'' \<mapsto> Pickle (scaler self))
      in case feature_names self of
           None \<Rightarrow> (fs2, Some TypeError)
         | Some names \<Rightarrow>
             (fs2(path_join model_dir ''model_metadata.json'' \<mapsto>
                Json \<lparr>md_feature_names = names,
                      md_met_classes = map (\<lambda>(k, v). (py_str k, v)) (met_classes self),
                      md_model_type = ''RandomForestClassifier'',
                      md_n_features = length names\<rparr>),
              None))"

text \<open>
  \<open>load_model\<close>, with the wrapper after the call and the exception, if any. Each
  attribute is assigned as soon as it is read, so a later exception leaves the
  earlier assignments in place.
\<close>

definition load_model :: "predictor \<Rightarrow> string \<Rightarrow> filesystem \<Rightarrow> predictor \<times> error option" where
  "load_model self model_dir fs =
     (case joblib_load fs (path_join model_dir ''met_model.pkl'') of
        Inl e \<Rightarrow> (self, Some e)
      | Inr m \<Rightarrow>
     (let self1 = self\<lparr>model := m\<rparr> in
      case joblib_load fs (path_join model_dir ''scaler.pkl'') of
        Inl e \<Rightarrow> (self1, Some e)
      | Inr s \<Rightarrow>
     (let self2 = self1\<lparr>scaler := s\<rparr> in
      case json_load fs (path_join model_dir ''model_metadata.json'') of
        Inl e \<Rightarrow> (self2, Some e)
      | Inr md \<Rightarrow>
     (let self3 = self2\<lparr>feature_names := Some (md_feature_names md)\<rparr> in
      case dict_from_items (md_met_classes md) [] of
        Inl e \<Rightarrow> (self3, Some e)
      | Inr mc \<Rightarrow> (self3\<lparr>met_classes := mc\<rparr>, None)))))"

text \<open>
  Concrete wrappers and a concrete library for the instances below. The first forest
  knows the four classes; the second was fitted on labels of three classes only (0, 2
  and 3) and answers with three probabilities.
\<close>

definition four_class_predictor :: predictor where
  "four_class_predictor =
     \<lparr>model = Classifier (RandomForestClassifier (\<lambda>v. 0) (\<lambda>v. [0.7, 0.1, 0.1, 0.1])),
      scaler = Scaler (StandardScaler (\<lambda>v. v)),
      feature_names = Some get_feature_names,
      met_classes = met_classes init_predictor\<rparr>"



section \<open>Stability layer (specification, section 4.5)\<close>

text \<open>
  Modelled from the spec: the stability/voting layer. The Python sources hold no
  function that votes over predictions, so the definitions below follow the words of
  the specification: keep the last \<open>N\<close> predictions, emit the class that occurs most
  often among them, and on a tie the one predicted most recently.
\<close>

text \<open>
  The vote over the kept predictions, newest first: the first class, from the newest
  on, that no class outnumbers. Only an empty history has none.
\<close>

definition vote :: "int list \<Rightarrow> int option" where
  "vote recent =
     find (\<lambda>c. \<forall>d \<in> set recent. count_list recent d \<le> count_list recent c) recent"

text \<open>One incoming prediction: it joins the history, which keeps its \<open>n\<close> newest.\<close>

definition observe :: "nat \<Rightarrow> int list \<Rightarrow> int \<Rightarrow> int list \<times> int option" where
  "observe n history p = (let recent = take n (p # history) in (recent, vote recent))"

text \<open>The filter over a sequence of predictions, from an empty history.\<close>

fun smooth_from :: "nat \<Rightarrow> int list \<Rightarrow> int list \<Rightarrow> int option list" where
  "smooth_from n history [] = []"
| "smooth_from n history (p # ps) =
     (case observe n history p of (recent, out) \<Rightarrow> out # smooth_from n recent ps)"

definition smooth :: "nat \<Rightarrow> int list \<Rightarrow> int option list" where
  "smooth n ps = smooth_from n [] ps"

text \<open>The last \<open>n\<close> predictions up to prediction \<open>i\<close> of a sequence, newest first.\<close>

definition last_predictions :: "nat \<Rightarrow> int list \<Rightarrow> nat \<Rightarrow> int list" where
  "last_predictions n ps i = take n (rev (take (Suc i) ps))"

section \<open>Properties of the label mapper\<close>

lemma get_met_class_Finite:
  "get_met_class (Finite v) = (if v < 1.5 then 0 else if v < 3 then 1 else if v < 6 then 2 else 3)"
  by (simp add: get_met_class_def)

lemma get_met_class_range: "get_met_class f \<in> {0, 1, 2, 3}"
  by (simp add: get_met_class_def)

text \<open>
  Claim C2. On a real MET value \<open>v\<close>, \<open>get_met_class\<close> is 0 below 1.5, 1 from 1.5 up
  to 3.0, 2 from 3.0 up to 6.0 and 3 from 6.0 on; so it never decreases when \<open>v\<close>
  grows, and each breakpoint belongs to the class that starts there.
\<close>

theorem get_met_class_breakpoints:
  "(v < 1.5 \<longrightarrow> get_met_class (Finite v) = 0) \<and>
   (1.5 \<le> v \<and> v < 3.0 \<longrightarrow> get_met_class (Finite v) = 1) \<and>
   (3.0 \<le> v \<and> v < 6.0 \<longrightarrow> get_met_class (Finite v) = 2) \<and>
   (6.0 \<le> v \<longrightarrow> get_met_class (Finite v) = 3) \<and>
   (v \<le> w \<longrightarrow> get_met_class (Finite v) \<le> get_met_class (Finite w)) \<and>
   get_met_class (Finite 1.5) = 1 \<and>
   get_met_class (Finite 3.0) = 2 \<and>
   get_met_class (Finite 6.0) = 3"
  by (simp add: get_met_class_Finite)

theorem get_met_class_breakpoints_witness:
  "get_met_class (Finite 1.2) = 0 \<and>
   get_met_class (Finite 2.5) = 1 \<and>
   get_met_class (Finite 3.5) = 2 \<and>
   get_met_class (Finite 7.0) = 3 \<and>
   get_met_class (Finite 1.2) \<le> get_met_class (Finite 2.5)"
  using get_met_class_breakpoints [of "1.2" "2.5"]
    get_met_class_breakpoints [of "2.5" "3.5"]
    get_met_class_breakpoints [of "3.5" "7.0"]
    get_met_class_breakpoints [of "7.0" "7.0"]
  by simp

text \<open>
  Claim C9. \<open>get_met_class\<close> answers on every float, always with one of 0, 1, 2, 3.
  On NaN each of the three comparisons is false, so the else branch answers 3.
\<close>

theorem get_met_class_total_nan:
  "get_met_class f \<in> {0, 1, 2, 3} \<and>
   \<not> float_lt NaN 1.5 \<and> \<not> float_lt NaN 3.0 \<and> \<not> float_lt NaN 6.0 \<and>
   get_met_class NaN = 3"
  by (simp add: get_met_class_def)

text \<open>
  Claim C1, as the code has it. An activity the mapping does not know raises nothing:
  its MET value is NaN, the row still gets a class from \<open>get_met_class\<close>, one of the
  four, and stays in the frame. An activity of the mapping gets its MET value.
\<close>

theorem unmapped_activity_is_labelled:
  "(map_of activity_met_mapping (activity r) = None \<longrightarrow>
      met_value (add_met_columns r) = NaN \<and>
      met_class (add_met_columns r) = get_met_class NaN \<and>
      met_class (add_met_columns r) \<in> {0, 1, 2, 3}) \<and>
   (map_of activity_met_mapping (activity r) = Some m \<longrightarrow>
      met_value (add_met_columns r) = Finite m \<and>
      met_class (add_met_columns r) = get_met_class (Finite m)) \<and>
   length (add_met_labels df) = length df \<and>
   map activity (add_met_labels df) = map activity df"
  by (simp add: add_met_columns_def add_met_labels_def series_map_def Let_def
      get_met_class_def comp_def)

theorem unmapped_activity_is_labelled_witness:
  "map_of activity_met_mapping ''Cycling'' = None \<and>
   met_value (add_met_columns
     \<lparr>user = 1, activity = ''Cycling'', timestamp = 0,
      x_axis = 0, y_axis = 0, z_axis = 9.8\<rparr>) = NaN \<and>
   map_of activity_met_mapping ''Sitting'' = Some 1.0 \<and>
   met_value (add_met_columns
     \<lparr>user = 1, activity = ''Sitting'', timestamp = 0,
      x_axis = 0, y_axis = 0, z_axis = 9.8\<rparr>) = Finite 1.0"
  using unmapped_activity_is_labelled
      [of "\<lparr>user = 1, activity = ''Cycling'', timestamp = 0,
            x_axis = 0, y_axis = 0, z_axis = 9.8\<rparr>" 0 "[]"]
    unmapped_activity_is_labelled
      [of "\<lparr>user = 1, activity = ''Sitting'', timestamp = 0,
            x_axis = 0, y_axis = 0, z_axis = 9.8\<rparr>" "1.0" "[]"]
  by (simp add: activity_met_mapping_def)

text \<open>
  The claim as the specification words it fails: the frame with the one unmapped row
  comes back with that row labelled class 3, and no error.
\<close>

theorem unmapped_activity_counterexample:
  "add_met_labels
     [\<lparr>user = 1, activity = ''Cycling'', timestamp = 0,
       x_axis = 0, y_axis = 0, z_axis = 9.8\<rparr>] =
     [\<lparr>user = 1, activity = ''Cycling'', timestamp = 0,
       x_axis = 0, y_axis = 0, z_axis = 9.8,
       met_value = NaN, met_class = 3\<rparr>]"
  by (simp add: add_met_labels_def add_met_columns_def series_map_def
      activity_met_mapping_def get_met_class_def)

section \<open>Properties of the feature extractor\<close>









lemma zero_crossings_card:
  "zero_crossings x =
     card {i. Suc i < length x \<and> sgn (x ! i - np_mean x) \<noteq> sgn (x ! Suc i - np_mean x)}"
proof -
  define s where "s = map (\<lambda>v. sgn (v - np_mean x)) x"
  define d where "d = map2 (\<lambda>u v. v - u) s (tl s)"
  have len: "length d = length x - 1"
    by (simp add: d_def s_def)
  have nth: "d ! i = s ! Suc i - s ! i" if "i < length d" for i
    using that by (simp add: d_def nth_tl)
  have "zero_crossings x = length (filter (\<lambda>v. v \<noteq> 0) d)"
    by (simp add: zero_crossings_def np_diff_def d_def s_def Let_def)
  also have "\<dots> = card {i. i < length d \<and> d ! i \<noteq> 0}"
    by (rule length_filter_conv_card)
  also have "{i. i < length d \<and> d ! i \<noteq> 0} =
      {i. Suc i < length x \<and> sgn (x ! i - np_mean x) \<noteq> sgn (x ! Suc i - np_mean x)}"
  proof (rule Collect_cong)
    fix i
    show "(i < length d \<and> d ! i \<noteq> 0) =
       (Suc i < length x \<and> sgn (x ! i - np_mean x) \<noteq> sgn (x ! Suc i - np_mean x))"
    proof (cases "Suc i < length x")
      case True
      then have "i < length d" by (simp add: len)
      with True show ?thesis
        by (auto simp add: nth s_def)
    next
      case False
      then have "\<not> i < length d" by (simp add: len less_diff_conv)
      with False show ?thesis by simp
    qed
  qed
  finally show ?thesis .
qed

lemma zero_crossings_constant:
  assumes "\<forall>v \<in> set x. v = c"
  shows "zero_crossings x = 0"
proof -
  have "\<And>i. Suc i < length x \<Longrightarrow> x ! i = x ! Suc i"
    using assms by (metis Suc_lessD nth_mem)
  then have e: "{i. Suc i < length x \<and> sgn (x ! i - np_mean x) \<noteq> sgn (x ! Suc i - np_mean x)} = {}"
    by auto
  show ?thesis unfolding zero_crossings_card e by simp
qed

lemma extract_features_zero_crossings:
  "extract_features x y z = Inr f \<Longrightarrow> f ! 13 = real (zero_crossings x)"
  by (auto simp add: extract_features_def Let_def split: sum.splits)

text \<open>
  Claim C10. The zero-crossing feature is the number of adjacent pairs \<open>(i, i+1)\<close>
  whose signs about the mean differ, with a sign in \<open>{-1, 0, 1}\<close>. So a pair is
  counted when one of its samples is on the mean and the other is not, both entering
  and leaving; a constant window counts 0; and the number is entry 13 of the vector.
\<close>

theorem zero_crossings_sign_changes:
  "zero_crossings x =
     card {i. Suc i < length x \<and> sgn (x ! i - np_mean x) \<noteq> sgn (x ! Suc i - np_mean x)} \<and>
   sgn (v - np_mean x) \<in> {-1, 0, 1} \<and>
   (Suc i < length x \<and> x ! i \<noteq> np_mean x \<and> x ! Suc i = np_mean x \<longrightarrow>
      sgn (x ! i - np_mean x) \<noteq> sgn (x ! Suc i - np_mean x)) \<and>
   (Suc i < length x \<and> x ! i = np_mean x \<and> x ! Suc i \<noteq> np_mean x \<longrightarrow>
      sgn (x ! i - np_mean x) \<noteq> sgn (x ! Suc i - np_mean x)) \<and>
   ((\<forall>u \<in> set x. u = c) \<longrightarrow> zero_crossings x = 0) \<and>
   (extract_features x y z = Inr f \<longrightarrow> f ! 13 = real (zero_crossings x))"
proof -
  have a: "sgn (v - np_mean x) \<in> {-1, 0, 1}"
    by (simp add: sgn_if)
  have b: "(\<forall>u \<in> set x. u = c) \<longrightarrow> zero_crossings x = 0"
    using zero_crossings_constant by blast
  have d: "extract_features x y z = Inr f \<longrightarrow> f ! 13 = real (zero_crossings x)"
    by (rule impI) (rule extract_features_zero_crossings)
  have e: "Suc i < length x \<and> x ! i \<noteq> np_mean x \<and> x ! Suc i = np_mean x \<longrightarrow>
      sgn (x ! i - np_mean x) \<noteq> sgn (x ! Suc i - np_mean x)"
    by (simp add: sgn_if)
  have f: "Suc i < length x \<and> x ! i = np_mean x \<and> x ! Suc i \<noteq> np_mean x \<longrightarrow>
      sgn (x ! i - np_mean x) \<noteq> sgn (x ! Suc i - np_mean x)"
    by (simp add: sgn_if)
  show ?thesis
    using a b d e f zero_crossings_card [of x] by blast
qed

theorem zero_crossings_sign_changes_witness:
  "zero_crossings [-1, 0, 1] = 2 \<and> zero_crossings [5, 5, 5] = 0 \<and>
   zero_crossings [1, 2, 3, 2, 1, 5] = 3"
  using zero_crossings_sign_changes [of "[-1, 0, 1]" 0 0 5 "[0, 0, 0]" "[0, 0, 0]" "[]"]
    zero_crossings_sign_changes [of "[5, 5, 5]" 0 0 5 "[0, 0, 0]" "[0, 0, 0]" "[]"]
  by (simp add: zero_crossings_def np_diff_def np_mean_def)



section \<open>Properties of the window segmenter\<close>













lemma groups_of_rows: "g \<in> set (groups_of df) \<Longrightarrow> set g \<subseteq> set df"
  by (auto simp add: groups_of_def Let_def)










section \<open>Properties of the classifier wrapper\<close>

lemma digit_value_digit_char: "d < 10 \<Longrightarrow> digit_value (digit_char d) = Some d"
proof -
  assume "d < 10"
  then have "d \<in> {0, 1, 2, 3, 4, 5, 6, 7, 8, 9}" by auto
  then show ?thesis
    by (auto simp add: digit_value_def digit_char_def)
qed

lemma digit_char_not_sign: "d < 10 \<Longrightarrow> digit_char d \<noteq> CHR ''-'' \<and> digit_char d \<noteq> CHR ''+''"
proof -
  assume "d < 10"
  then have "d \<in> {0, 1, 2, 3, 4, 5, 6, 7, 8, 9}" by auto
  then show ?thesis
    by (auto simp add: digit_char_def)
qed

lemma parse_digits_append:
  "parse_digits (xs @ ys) acc =
     (case parse_digits xs acc of None \<Rightarrow> None | Some a \<Rightarrow> parse_digits ys a)"
  by (induction xs arbitrary: acc) (auto split: option.splits)

lemma parse_digits_str_nat: "parse_digits (str_nat n) 0 = Some n"
proof (induction n rule: str_nat.induct)
  case (1 n)
  show ?case
  proof (cases "n < 10")
    case True
    then show ?thesis by (simp add: digit_value_digit_char)
  next
    case False
    then have ih: "parse_digits (str_nat (n div 10)) 0 = Some (n div 10)"
      using 1 by simp
    have "str_nat n = str_nat (n div 10) @ [digit_char (n mod 10)]"
      using False by simp
    then show ?thesis
      by (simp add: parse_digits_append ih digit_value_digit_char del: str_nat.simps)
  qed
qed

lemma str_nat_head: "str_nat n \<noteq> [] \<and> hd (str_nat n) \<noteq> CHR ''-'' \<and> hd (str_nat n) \<noteq> CHR ''+''"
proof (induction n rule: str_nat.induct)
  case (1 n)
  show ?case
  proof (cases "n < 10")
    case True
    then show ?thesis using digit_char_not_sign [of n] by simp
  next
    case False
    then have "str_nat n = str_nat (n div 10) @ [digit_char (n mod 10)]" by simp
    moreover have "str_nat (n div 10) \<noteq> [] \<and> hd (str_nat (n div 10)) \<noteq> CHR ''-'' \<and>
        hd (str_nat (n div 10)) \<noteq> CHR ''+''"
      using 1 False by simp
    ultimately show ?thesis by (simp del: str_nat.simps)
  qed
qed

lemma parse_nat_str_nat: "parse_nat (str_nat n) = Inr n"
  using str_nat_head [of n] by (simp add: parse_nat_def parse_digits_str_nat del: str_nat.simps)

lemma py_int_py_str: "py_int (py_str i) = Inr i"
proof (cases "i < 0")
  case True
  then show ?thesis
    by (simp add: py_int_def py_str_def parse_nat_str_nat del: str_nat.simps)
next
  case False
  then show ?thesis
    using str_nat_head [of "nat i"]
    by (simp add: py_int_def py_str_def parse_nat_str_nat del: str_nat.simps)
qed

lemma dict_set_fresh: "k \<notin> fst ` set d \<Longrightarrow> dict_set k v d = d @ [(k, v)]"
  by (induction d) auto

lemma dict_from_items_round_trip:
  "distinct (map fst (d @ kvs)) \<Longrightarrow>
   dict_from_items (map (\<lambda>(k, v). (py_str k, v)) kvs) d = Inr (d @ kvs)"
proof (induction kvs arbitrary: d)
  case Nil
  then show ?case by simp
next
  case (Cons kv kvs)
  obtain k v where kv: "kv = (k, v)" by (cases kv)
  from Cons.prems have fresh: "k \<notin> fst ` set d" and rest: "distinct (map fst ((d @ [(k, v)]) @ kvs))"
    by (auto simp add: kv)
  show ?case
    using Cons.IH [OF rest] by (simp add: kv py_int_py_str dict_set_fresh [OF fresh])
qed

lemma path_join_inject: "path_join d a = path_join d b \<Longrightarrow> a = b"
  by (auto simp add: path_join_def split: if_splits)

lemma model_paths_distinct:
  "path_join d ''met_model.pkl'' \<noteq> path_join d ''scaler.pkl''"
  "path_join d ''met_model.pkl'' \<noteq> path_join d ''model_metadata.json''"
  "path_join d ''scaler.pkl'' \<noteq> path_join d ''model_metadata.json''"
  using path_join_inject [of d] by fastforce+

lemma load_after_save:
  assumes "distinct (map fst (met_classes p))" and "feature_names p = Some names"
  shows "snd (save_model p d fs) = None"
    and "load_model q d (fst (save_model p d fs)) = (p, None)"
proof -
  show "snd (save_model p d fs) = None"
    using assms(2) by (simp add: save_model_def Let_def)
  have items: "dict_from_items (map (\<lambda>(k, v). (py_str k, v)) (met_classes p)) [] = Inr (met_classes p)"
    using dict_from_items_round_trip [of "[]" "met_classes p"] assms(1) by simp
  show "load_model q d (fst (save_model p d fs)) = (p, None)"
    using assms(2) model_paths_distinct [of d]
    by (simp add: save_model_def load_model_def Let_def joblib_load_def json_load_def items)
qed








text \<open>
  Claim C6. \<open>save_model\<close> succeeds on a wrapper whose feature names are set, and
  \<open>load_model\<close> on the directory it wrote gives any wrapper the same classifier,
  scaler, feature names and class names; so \<open>predict\<close> returns the same result, class
  and probabilities, on every feature vector. (A dict has distinct keys.)
\<close>

theorem load_of_save_predicts_alike:
  assumes "distinct (map fst (met_classes p))" and "feature_names p = Some names"
  shows "snd (save_model p d fs) = None \<and>
     snd (load_model q d (fst (save_model p d fs))) = None \<and>
     model (fst (load_model q d (fst (save_model p d fs)))) = model p \<and>
     scaler (fst (load_model q d (fst (save_model p d fs)))) = scaler p \<and>
     feature_names (fst (load_model q d (fst (save_model p d fs)))) = feature_names p \<and>
     met_classes (fst (load_model q d (fst (save_model p d fs)))) = met_classes p \<and>
     predict (fst (load_model q d (fst (save_model p d fs)))) features = predict p features"
  using load_after_save(1) [OF assms, where d = d and fs = fs]
    load_after_save(2) [OF assms, where q = q and d = d and fs = fs]
  by simp

theorem load_of_save_predicts_alike_witness:
  "snd (save_model four_class_predictor ''models/trained'' Map.empty) = None \<and>
   load_model init_predictor ''models/trained''
      (fst (save_model four_class_predictor ''models/trained'' Map.empty)) =
     (four_class_predictor, None)"
proof -
  have d: "distinct (map fst (met_classes four_class_predictor))"
    by (simp add: four_class_predictor_def init_predictor_def)
  have n: "feature_names four_class_predictor = Some get_feature_names"
    by (simp add: four_class_predictor_def)
  note t = load_of_save_predicts_alike
    [OF d n, where d = "''models/trained''" and fs = Map.empty and q = init_predictor
       and features = "[]"]
  have "fst (load_model init_predictor ''models/trained''
      (fst (save_model four_class_predictor ''models/trained'' Map.empty))) = four_class_predictor"
    using t by (intro predictor.equality) simp_all
  then show ?thesis using t by (simp add: prod_eq_iff)
qed



section \<open>Properties of the stability layer\<close>

lemma take_append_take: "take n (xs @ take n ys) = take n (xs @ ys)"
  by (simp add: take_append min_def)

lemma smooth_from_nth:
  "i < length ps \<Longrightarrow>
   smooth_from n history ps ! i = vote (take n (rev (take (Suc i) ps) @ history))"
proof (induction ps arbitrary: history i)
  case Nil
  then show ?case by simp
next
  case (Cons p ps)
  show ?case
  proof (cases i)
    case 0
    then show ?thesis by (simp add: observe_def Let_def)
  next
    case (Suc j)
    with Cons.prems have j: "j < length ps" by simp
    have "smooth_from n history (p # ps) ! i = smooth_from n (take n (p # history)) ps ! j"
      by (simp add: Suc observe_def Let_def)
    also have "\<dots> = vote (take n (rev (take (Suc j) ps) @ take n (p # history)))"
      using j by (rule Cons.IH)
    also have "\<dots> = vote (take n (rev (take (Suc j) ps) @ p # history))"
      by (simp only: take_append_take)
    finally show ?thesis by (simp add: Suc)
  qed
qed

lemma length_smooth_from: "length (smooth_from n history ps) = length ps"
  by (induction ps arbitrary: history) (auto simp add: observe_def Let_def)

lemma max_count_exists:
  assumes "recent \<noteq> []"
  shows "\<exists>c \<in> set recent. \<forall>d \<in> set recent. count_list recent d \<le> count_list recent c"
proof -
  let ?f = "count_list recent"
  have "finite (?f ` set recent)" "?f ` set recent \<noteq> {}" using assms by auto
  then have "Max (?f ` set recent) \<in> ?f ` set recent" by (rule Max_in)
  then obtain c where c: "c \<in> set recent" "?f c = Max (?f ` set recent)" by auto
  have "\<forall>d \<in> set recent. ?f d \<le> ?f c"
    using c(2) by (simp add: Max_ge)
  with c(1) show ?thesis by blast
qed

lemma vote_Some:
  assumes "recent \<noteq> []"
  shows "\<exists>c i. vote recent = Some c \<and> i < length recent \<and> recent ! i = c \<and>
     (\<forall>d. count_list recent d \<le> count_list recent c) \<and>
     (\<forall>j < i. count_list recent (recent ! j) < count_list recent c)"
proof -
  let ?P = "\<lambda>c. \<forall>d \<in> set recent. count_list recent d \<le> count_list recent c"
  from max_count_exists [OF assms] have "find ?P recent \<noteq> None"
    by (simp add: find_None_iff) blast
  then obtain c where c: "find ?P recent = Some c" by auto
  then obtain i where i: "i < length recent" "?P (recent ! i)" "c = recent ! i"
    "\<forall>j < i. \<not> ?P (recent ! j)"
    by (auto simp add: find_Some_iff)
  have all: "count_list recent d \<le> count_list recent c" for d
  proof (cases "d \<in> set recent")
    case True
    then show ?thesis using i(2,3) by simp
  next
    case False
    then show ?thesis by (simp add: count_list_0_iff [THEN iffD2])
  qed
  have before: "count_list recent (recent ! j) < count_list recent c" if "j < i" for j
  proof -
    from that i(4) obtain d where d: "d \<in> set recent"
      "\<not> count_list recent d \<le> count_list recent (recent ! j)" by auto
    then have "count_list recent (recent ! j) < count_list recent d" by simp
    also have "\<dots> \<le> count_list recent c" by (rule all)
    finally show ?thesis .
  qed
  show ?thesis
    using c i(1,3) all before by (auto simp add: vote_def)
qed

text \<open>
  Claim C7. The sequence \<open>[0,0,3,0,0]\<close> is smoothed to \<open>[0,0,0,0,0]\<close>. In general,
  with \<open>N = 3\<close>, each incoming prediction gets one output: a class among the last
  three predictions that no class outnumbers there, and every prediction more recent
  than its latest occurrence occurs strictly less often, so a tie goes to the most
  recent.
\<close>

theorem majority_vote_smoothing:
  "smooth 3 [0, 0, 3, 0, 0] = [Some 0, Some 0, Some 0, Some 0, Some 0] \<and>
   length (smooth 3 ps) = length ps \<and>
   (\<forall>i < length ps.
      \<exists>c k. smooth 3 ps ! i = Some c \<and>
        k < length (last_predictions 3 ps i) \<and>
        last_predictions 3 ps i ! k = c \<and>
        (\<forall>d. count_list (last_predictions 3 ps i) d \<le> count_list (last_predictions 3 ps i) c) \<and>
        (\<forall>j < k. count_list (last_predictions 3 ps i) (last_predictions 3 ps i ! j)
               < count_list (last_predictions 3 ps i) c))"
proof -
  have a: "smooth 3 [0, 0, 3, 0, 0] = [Some 0, Some 0, Some 0, Some 0, Some 0]"
    by (simp add: smooth_def observe_def vote_def Let_def)
  have b: "length (smooth 3 ps) = length ps"
    by (simp add: smooth_def length_smooth_from)
  have c: "\<exists>c k. smooth 3 ps ! i = Some c \<and>
        k < length (last_predictions 3 ps i) \<and>
        last_predictions 3 ps i ! k = c \<and>
        (\<forall>d. count_list (last_predictions 3 ps i) d \<le> count_list (last_predictions 3 ps i) c) \<and>
        (\<forall>j < k. count_list (last_predictions 3 ps i) (last_predictions 3 ps i ! j)
               < count_list (last_predictions 3 ps i) c)"
    if "i < length ps" for i
  proof -
    have ne: "last_predictions 3 ps i \<noteq> []"
      using that by (cases ps) (auto simp add: last_predictions_def)
    have "smooth 3 ps ! i = vote (last_predictions 3 ps i)"
      using smooth_from_nth [OF that, of 3 "[]"] by (simp add: smooth_def last_predictions_def)
    with vote_Some [OF ne] show ?thesis by simp
  qed
  show ?thesis
    using a b c by blast
qed

theorem majority_vote_smoothing_witness:
  "smooth 3 [0, 1, 2, 3, 3, 1, 1] ! 5 = Some 3 \<and> last_predictions 3 [0, 1, 2, 3, 3, 1, 1] 5 = [1, 3, 3] \<and>
   smooth 3 [0, 1, 2, 3, 3, 1, 1] ! 1 = Some 1 \<and> last_predictions 3 [0, 1, 2, 3, 3, 1, 1] 1 = [1, 0]"
proof -
  have "smooth 3 [0, 1, 2, 3, 3, 1, 1] = [Some 0, Some 1, Some 2, Some 3, Some 3, Some 3, Some 1]"
    by (simp add: smooth_def observe_def vote_def Let_def)
  then show ?thesis
    using majority_vote_smoothing [of "[0, 1, 2, 3, 3, 1, 1]"]
    by (simp add: last_predictions_def)
qed

end
